theory Spec2Isabelle
  imports Main
begin

section \<open>Data model of main.go\<close>

text \<open>
  The Go program mirrors a Twitter timeline over the Gemini protocol. It has two parts:
  a cache of tweets that a background loop refreshes (\<open>TweetCache\<close>), and a request
  handler that renders pages from the cache (\<open>RequestHandler\<close>).

  Go strings are byte strings; they are modelled as \<open>string\<close> (a list of 8-bit
  characters). Go's \<open>int\<close> is modelled as \<open>int\<close>: the only arithmetic the program does on
  it is \<open>len(tc.Tweets) - 1\<close> and the loop counter \<open>i += 1\<close> below 10, neither of which
  can overflow; the range of \<open>int\<close> matters only in \<open>strconv.Atoi\<close>, where it is written
  out (64 bits).
\<close>

text \<open>
  Of \<open>twitter.Tweet\<close> and \<open>twitter.User\<close> the program reads two fields only. The
  library declares \<open>Tweet.User\<close> as a pointer, \<open>*User\<close>: it is nil (\<open>None\<close>) when the
  reply of the Twitter API carries no user object for the tweet.
\<close>

record twitter_User =
  Name :: string

record twitter_Tweet =
  Text :: string
  User :: "twitter_User option"

text \<open>
  \<open>Config\<close>: the handler and the cache read the \<open>UI\<close> part only (the address, the
  certificate and the Twitter credentials are used by \<open>main\<close> and by the remote fetch).
\<close>

record Config_UI =
  AsciiLogoFile :: string
  Delimiter :: string

record Config =
  UI :: Config_UI

text \<open>
  \<open>TweetCache\<close>: the cached tweets and the time of the last refresh. A \<open>time.Time\<close> is
  modelled as the number of nanoseconds since Go's zero time, so the zero value of
  \<open>LastRefresh\<close> is 0.
\<close>

record TweetCache =
  Tweets :: "twitter_Tweet list"
  LastRefresh :: int

text \<open>
  A run-time panic of the Go program. Two operations of the modelled functions can
  panic: the slice index \<open>tc.Tweets[pos]\<close> (Go checks \<open>0 <= pos < len\<close> and panics with
  "index out of range [pos] with length len" otherwise), and the field access
  \<open>tweet.User.Name\<close> through the pointer \<open>tweet.User\<close> (a nil pointer dereference when
  the tweet has no user).
\<close>

datatype panic = IndexOutOfRange int nat | NilPointerDereference

text \<open>The error value \<open>errors.New("twit not available")\<close>.\<close>

datatype error = TwitNotAvailable

definition index :: "'a list \<Rightarrow> int \<Rightarrow> panic + 'a" where
  "index xs i =
     (if 0 \<le> i \<and> i < int (length xs) then Inr (xs ! nat i)
      else Inl (IndexOutOfRange i (length xs)))"

section \<open>TweetCache.GetOnPosition\<close>

text \<open>
  \<^verbatim>\<open>
  func (tc *TweetCache) GetOnPosition(pos int) (string, error) {
      if len(tc.Tweets) == 0 || len(tc.Tweets)-1 < pos {
          return "", errors.New("twit not available")
      }
      tweet := tc.Tweets[pos]
      return tweet.Text + "\n\n" + tweet.User.Name, nil
  }
  \<close>
  The result is Go's pair (string, error), with \<open>None\<close> for the nil error, or a panic.
\<close>

definition GetOnPosition :: "TweetCache \<Rightarrow> int \<Rightarrow> panic + (string \<times> error option)" where
  "GetOnPosition tc pos =
     (if length (Tweets tc) = 0 \<or> int (length (Tweets tc)) - 1 < pos
      then Inr ('''', Some TwitNotAvailable)
      else (case index (Tweets tc) pos of
              Inl p \<Rightarrow> Inl p
            | Inr tweet \<Rightarrow>
                (case User tweet of
                   None \<Rightarrow> Inl NilPointerDereference
                 | Some user \<Rightarrow> Inr (Text tweet @ ''\<newline>\<newline>'' @ Name user, None))))"

section \<open>RequestHandler: rendering\<close>

record RequestHandler =
  TweetCache :: TweetCache
  Config :: Config

text \<open>
  \<open>rh.TweetCache\<close> is a pointer to the cache that the refresh loop writes. A call of the
  handler is modelled on the cache as it stands when the call is made: the interleaving
  of the two goroutines is not part of this model.
\<close>

text \<open>
  \<^verbatim>\<open>
  func (rh *RequestHandler) formatTimeline() string {
      var timeline string
      for i := 0; i < 10; i += 1 {
          tw, err := rh.TweetCache.GetOnPosition(i)
          if err != nil {
              continue
          }
          timeline += fmt.Sprintf("\n\n%s\n\n%s", tw, rh.Config.UI.Delimiter)
      }
      return timeline
  }
  \<close>
  The loop is the recursive function \<open>formatTimeline_loop\<close> on the counter \<open>i\<close> and the
  string built so far.
\<close>

function formatTimeline_loop :: "RequestHandler \<Rightarrow> int \<Rightarrow> string \<Rightarrow> panic + string" where
  "formatTimeline_loop rh i timeline =
     (if i < 10 then
        (case GetOnPosition (TweetCache rh) i of
           Inl p \<Rightarrow> Inl p
         | Inr r \<Rightarrow>
             if snd r \<noteq> None then formatTimeline_loop rh (i + 1) timeline
             else formatTimeline_loop rh (i + 1)
                    (timeline @ ''\<newline>\<newline>'' @ fst r @ ''\<newline>\<newline>'' @ Delimiter (UI (Config rh))))
      else Inr timeline)"
  by pat_completeness auto
termination
  by (relation "measure (\<lambda>(rh, i, timeline). nat (10 - i))") auto

declare formatTimeline_loop.simps [simp del]

definition formatTimeline :: "RequestHandler \<Rightarrow> panic + string" where
  "formatTimeline rh = formatTimeline_loop rh 0 ''''"

text \<open>
  \<^verbatim>\<open>
  func (rh *RequestHandler) formatTweet(pos int) string {
      tw, err := rh.TweetCache.GetOnPosition(pos)
      if err != nil {
          return ""
      }
      return fmt.Sprintf("\n\n%s", tw)
  }
  \<close>
\<close>

definition formatTweet :: "RequestHandler \<Rightarrow> int \<Rightarrow> panic + string" where
  "formatTweet rh pos =
     (case GetOnPosition (TweetCache rh) pos of
        Inl p \<Rightarrow> Inl p
      | Inr r \<Rightarrow> if snd r \<noteq> None then Inr '''' else Inr (''\<newline>\<newline>'' @ fst r))"

text \<open>The footer is a raw string literal: a blank line, the link and a newline.\<close>

definition getFooter :: string where
  "getFooter =
     ''\<newline>\<newline>=> https://github.com/vegasq/gemini-twitter-mirror Fork me on GitHub\<newline>''"

text \<open>
  The file system, as \<open>os.Open\<close> sees it: for a path, Go's pair (file, error). An opened
  file is modelled by the bytes that \<open>io.Copy\<close> reads from it; the nil file is \<open>None\<close>.
  \<open>os.Open\<close> reports a failure as a \<open>*PathError\<close> that wraps the system's error number
  (2 for a file that does not exist); \<open>ErrNotExist\<close> is the sentinel value
  \<open>os.ErrNotExist\<close> that the program compares the error with.
\<close>

datatype os_error = ErrNotExist | PathError string string nat

type_synonym FileSystem = "string \<Rightarrow> string option \<times> os_error option"

text \<open>
  \<open>b := strings.Builder{}; io.Copy(&b, fl); b.String()\<close>: the bytes of the file. On the
  nil file, \<open>(*os.File).Read\<close> returns the error \<open>os.ErrInvalid\<close> at once (it does not
  panic), \<open>io.Copy\<close> returns that error, the program drops it, and the builder stays
  empty.
\<close>

definition io_Copy_String :: "string option \<Rightarrow> string" where
  "io_Copy_String fl = (case fl of None \<Rightarrow> '''' | Some bytes \<Rightarrow> bytes)"

text \<open>
  \<^verbatim>\<open>
  func (rh *RequestHandler) getHeader() string {
      var logo string
      fl, err := os.Open(rh.Config.UI.AsciiLogoFile)
      if err == os.ErrNotExist {
          logo = ""
      } else {
          b := strings.Builder{}
          io.Copy(&b, fl)
          logo = b.String()
      }
      return fmt.Sprintf(<logo, a blank line, the three links, a blank line>, logo)
  }
  \<close>
  \<open>menu\<close> is the format string after its \<open>%s\<close>.
\<close>

definition menu :: string where
  "menu =
     ''\<newline>\<newline>=> / Last tweet\<newline>=> /timeline Timeline\<newline>=> /select_tweet Tweet selector\<newline>\<newline>''"

definition getHeader :: "FileSystem \<Rightarrow> RequestHandler \<Rightarrow> string" where
  "getHeader os_Open rh =
     (let fl = fst (os_Open (AsciiLogoFile (UI (Config rh))));
          err = snd (os_Open (AsciiLogoFile (UI (Config rh))));
          logo = (if err = Some ErrNotExist then '''' else io_Copy_String fl)
      in logo @ menu)"

definition wrapBody :: "FileSystem \<Rightarrow> RequestHandler \<Rightarrow> string \<Rightarrow> string" where
  "wrapBody os_Open rh body = getHeader os_Open rh @ body @ getFooter"

text \<open>
  \<open>gemini.Response{Status, Meta, Body, Cert}\<close>: the body is nil (\<open>None\<close>) or a reader
  over a string; the certificate is nil in every response the program builds.
\<close>

record Response =
  Status :: int
  Meta :: string
  Body :: "string option"

definition showTweet :: "FileSystem \<Rightarrow> RequestHandler \<Rightarrow> int \<Rightarrow> panic + Response" where
  "showTweet os_Open rh offset =
     (case formatTweet rh offset of
        Inl p \<Rightarrow> Inl p
      | Inr content \<Rightarrow>
          Inr \<lparr>Status = 20, Meta = ''text/gemini'', Body = Some (wrapBody os_Open rh content)\<rparr>)"

definition showTimeline :: "FileSystem \<Rightarrow> RequestHandler \<Rightarrow> panic + Response" where
  "showTimeline os_Open rh =
     (case formatTimeline rh of
        Inl p \<Rightarrow> Inl p
      | Inr content \<Rightarrow>
          Inr \<lparr>Status = 20, Meta = ''text/gemini'', Body = Some (wrapBody os_Open rh content)\<rparr>)"

section \<open>RequestHandler: routing\<close>

text \<open>
  Of the request the handler reads \<open>r.URL.Path\<close> and \<open>r.URL.Query()\<close>. \<open>Query()\<close> is
  a Go map from keys to lists of values; it is modelled as the list of its entries in the
  order in which \<open>range\<close> visits them (Go leaves that order open), so its length is
  \<open>len(params)\<close> and its first entry is the one \<open>getFirstKeyFromURL\<close> returns. The URL
  \<open>/select_tweet?5\<close> has the path \<open>/select_tweet\<close> and the single entry \<open>("5", [""])\<close>.
\<close>

record url_URL =
  Path :: string
  Query :: "(string \<times> string list) list"

record Request =
  URL :: url_URL

definition getFirstKeyFromURL :: "url_URL \<Rightarrow> string" where
  "getFirstKeyFromURL u = (case Query u of [] \<Rightarrow> '''' | kv # rest \<Rightarrow> fst kv)"

text \<open>
  \<open>strconv.Atoi\<close> of the Go standard library, for a 64-bit \<open>int\<close>: an optional sign
  \<open>+\<close> or \<open>-\<close>, then one or more decimal digits and nothing else; a syntax error
  otherwise, and a range error (with the nearest bound as value) when the number does not
  fit. The result is Go's pair (int, error).
\<close>

datatype NumError = ErrSyntax | ErrRange

definition isDigit :: "char \<Rightarrow> bool" where
  "isDigit ch = (48 \<le> (of_char ch :: nat) \<and> (of_char ch :: nat) \<le> 57)"

fun digitsValue :: "string \<Rightarrow> int \<Rightarrow> int" where
  "digitsValue [] n = n"
| "digitsValue (ch # s) n = digitsValue s (n * 10 + (of_char ch - 48))"

definition Atoi :: "string \<Rightarrow> int \<times> NumError option" where
  "Atoi s0 =
     (let neg = (case s0 of [] \<Rightarrow> False | ch # rest \<Rightarrow> ch = CHR ''-'');
          s = (case s0 of [] \<Rightarrow> [] | ch # rest \<Rightarrow> if ch = CHR ''-'' \<or> ch = CHR ''+'' then rest else s0)
      in if s = [] then (0, Some ErrSyntax)
         else if list_all isDigit s then
           (let n = (if neg then - digitsValue s 0 else digitsValue s 0)
            in if n < - (2 ^ 63) then (- (2 ^ 63), Some ErrRange)
               else if 2 ^ 63 - 1 < n then (2 ^ 63 - 1, Some ErrRange)
               else (n, None))
         else (0, Some ErrSyntax))"

text \<open>
  \<^verbatim>\<open>
  func (rh *RequestHandler) Handle(r gemini.Request) *gemini.Response {
      params := r.URL.Query()
      if r.URL.Path == "/" {
          return rh.showTweet(0)
      } else if r.URL.Path == "/timeline" {
          return rh.showTimeline()
      } else if r.URL.Path == "/select_tweet" && len(params) == 0 {
          return &gemini.Response{10, "Get tweet offset. f.e. 5", nil, nil}
      } else if r.URL.Path == "/select_tweet" {
          offset, err := strconv.Atoi(getFirstKeyFromURL(*r.URL))
          if err != nil {
              return &gemini.Response{42, "Failed to parse input. Please use numbers.", nil, nil}
          }
          return rh.showTweet(offset)
      }
      return &gemini.Response{51, "Unknown location", nil, nil}
  }
  \<close>
  The result is the response, or the panic that ends the call.
\<close>

definition Handle :: "FileSystem \<Rightarrow> RequestHandler \<Rightarrow> Request \<Rightarrow> panic + Response" where
  "Handle os_Open rh r =
     (let params = Query (URL r) in
      if Path (URL r) = ''/'' then showTweet os_Open rh 0
      else if Path (URL r) = ''/timeline'' then showTimeline os_Open rh
      else if Path (URL r) = ''/select_tweet'' \<and> length params = 0 then
        Inr \<lparr>Status = 10, Meta = ''Get tweet offset. f.e. 5'', Body = None\<rparr>
      else if Path (URL r) = ''/select_tweet'' then
        (let offset = fst (Atoi (getFirstKeyFromURL (URL r)));
             err = snd (Atoi (getFirstKeyFromURL (URL r)))
         in if err \<noteq> None then
              Inr \<lparr>Status = 42, Meta = ''Failed to parse input. Please use numbers.'', Body = None\<rparr>
            else showTweet os_Open rh offset)
      else Inr \<lparr>Status = 51, Meta = ''Unknown location'', Body = None\<rparr>)"

section \<open>TweetCache.Refresher\<close>

text \<open>
  Time. A \<open>time.Duration\<close> is a 64-bit count of nanoseconds; \<open>t.Sub(u)\<close> is the
  difference \<open>t - u\<close>, replaced by the largest or smallest duration when it does not fit,
  and \<open>time.Since(t)\<close> is \<open>time.Now().Sub(t)\<close>. The reading of the clock is an argument.
\<close>

definition Minute :: int where
  "Minute = 60 * 1000000000"

definition Sub :: "int \<Rightarrow> int \<Rightarrow> int" where
  "Sub t u =
     (if t - u < - (2 ^ 63) then - (2 ^ 63)
      else if 2 ^ 63 - 1 < t - u then 2 ^ 63 - 1
      else t - u)"

definition Since :: "int \<Rightarrow> int \<Rightarrow> int" where
  "Since now t = Sub now t"

text \<open>
  \<^verbatim>\<open>
  func (tc *TweetCache) getTweets() ([]twitter.Tweet, error) {
      ...
      tweets, _, err := client.Timelines.UserTimeline(...)
      if err != nil {
          return nil, err
      }
      return tweets, nil
  }
  \<close>
  The call of the Twitter client is outside the program; its reply (the tweets and the
  error) is an argument.
\<close>

datatype fetch_error = UserTimelineError

definition getTweets ::
  "twitter_Tweet list \<times> fetch_error option \<Rightarrow> twitter_Tweet list \<times> fetch_error option" where
  "getTweets reply = (if snd reply \<noteq> None then ([], snd reply) else (fst reply, None))"

text \<open>
  What the environment does during one iteration of the loop: how long it takes until
  the iteration reads the clock (\<open>waited\<close>), what the Twitter client replies and after
  how long (\<open>reply\<close>, \<open>fetch_took\<close>; both unused when no fetch is made), and by how much
  \<open>time.Sleep\<close> overruns the duration asked for (\<open>overslept\<close>: Go promises a pause of at
  least that duration). All times are nanoseconds; none is negative, so the clock never
  runs backwards.
\<close>

record Iteration =
  waited :: nat
  reply :: "twitter_Tweet list \<times> fetch_error option"
  fetch_took :: nat
  overslept :: nat

text \<open>
  What an iteration does that the outside can see: a call of \<open>getTweets\<close> at a time, and
  a call of \<open>time.Sleep\<close> at a time for a duration. An iteration with no \<open>Sleep\<close> goes on
  to the next iteration at once.
\<close>

datatype event = Fetch int | Sleep int int

text \<open>
  \<^verbatim>\<open>
  func (tc *TweetCache) Refresher() {
      for {
          if time.Since(tc.LastRefresh) < time.Minute*15 {
              continue
          }

          tweets, err := tc.getTweets()

          if err != nil {
              time.Sleep(time.Minute * 5)
          } else if len(tweets) < len(tc.Tweets) {
              continue
          } else {
              tc.Tweets = tweets
              tc.LastRefresh = time.Now()
          }
      }
  }
  \<close>
  \<open>Refresher_body\<close> is one iteration of the loop, on the cache and the clock; it returns
  the cache and the clock at the end of the iteration and the events of the iteration.
\<close>

fun Refresher_body :: "Iteration \<Rightarrow> TweetCache \<times> int \<Rightarrow> (TweetCache \<times> int) \<times> event list" where
  "Refresher_body it (tc, clock) =
     (let now = clock + int (waited it) in
      if Since now (LastRefresh tc) < Minute * 15 then ((tc, now), [])
      else
        (let tweets = fst (getTweets (reply it));
             err = snd (getTweets (reply it));
             returned = now + int (fetch_took it)
         in if err \<noteq> None then
              ((tc, returned + Minute * 5 + int (overslept it)),
               [Fetch now, Sleep returned (Minute * 5)])
            else if length tweets < length (Tweets tc) then ((tc, returned), [Fetch now])
            else ((tc\<lparr>Tweets := tweets, LastRefresh := returned\<rparr>, returned), [Fetch now])))"

text \<open>
  The loop never ends, so a run is given by its finite prefixes: \<open>Refresher its\<close> runs
  one iteration for each element of \<open>its\<close>, in order, and collects the events.
\<close>

fun Refresher :: "Iteration list \<Rightarrow> TweetCache \<times> int \<Rightarrow> (TweetCache \<times> int) \<times> event list" where
  "Refresher [] s = (s, [])"
| "Refresher (it # its) s =
     (let r = Refresher_body it s;
          r' = Refresher its (fst r)
      in (fst r', snd r @ snd r'))"

fun fetch_times :: "event list \<Rightarrow> int list" where
  "fetch_times [] = []"
| "fetch_times (Fetch t # evs) = t # fetch_times evs"
| "fetch_times (Sleep t d # evs) = fetch_times evs"

fun sleeps :: "event list \<Rightarrow> bool" where
  "sleeps [] = False"
| "sleeps (Fetch t # evs) = sleeps evs"
| "sleeps (Sleep t d # evs) = True"

section \<open>The timeline as the specification words it\<close>

text \<open>
  The specification describes the timeline page as up to ten items, each followed by the
  configured delimiter. \<open>render_item\<close> is one such item (a blank line, the tweet's text, a
  blank line, the author's name, a blank line, the delimiter), and \<open>timeline_spec\<close> is
  the first ten cached tweets rendered so, one after the other. They are compared with
  \<open>formatTimeline\<close> below, for caches whose tweets have a user; for a tweet with no user
  there is no author's name to render, and \<open>render_item\<close> leaves the name empty.
\<close>

definition render_item :: "string \<Rightarrow> twitter_Tweet \<Rightarrow> string" where
  "render_item delimiter tweet =
     ''\<newline>\<newline>'' @ Text tweet @ ''\<newline>\<newline>'' @
     (case User tweet of None \<Rightarrow> '''' | Some user \<Rightarrow> Name user) @
     ''\<newline>\<newline>'' @ delimiter"

definition timeline_spec :: "RequestHandler \<Rightarrow> string" where
  "timeline_spec rh =
     concat (map (render_item (Delimiter (UI (Config rh)))) (take 10 (Tweets (TweetCache rh))))"

section \<open>Example inputs\<close>

text \<open>
  Concrete inputs, used where a property is evaluated: a file system in which no file
  can be opened (\<open>os.Open\<close> fails with "no such file or directory"), handlers over an
  empty cache, over two tweets, over three, and over one tweet that has no user, and
  iterations of the refresh loop whose fetch fails, returns one tweet, and returns three.
\<close>

definition no_logo :: FileSystem where
  "no_logo path = (None, Some (PathError ''open'' path 2))"

definition example_config :: Config where
  "example_config = \<lparr>UI = \<lparr>AsciiLogoFile = ''logo.txt'', Delimiter = ''---''\<rparr>\<rparr>"

definition tweet_a :: twitter_Tweet where
  "tweet_a = \<lparr>Text = ''first'', User = Some \<lparr>Name = ''amy''\<rparr>\<rparr>"

definition tweet_b :: twitter_Tweet where
  "tweet_b = \<lparr>Text = ''second'', User = Some \<lparr>Name = ''bob''\<rparr>\<rparr>"

definition tweet_c :: twitter_Tweet where
  "tweet_c = \<lparr>Text = ''third'', User = Some \<lparr>Name = ''cat''\<rparr>\<rparr>"

definition orphan_tweet :: twitter_Tweet where
  "orphan_tweet = \<lparr>Text = ''orphan'', User = None\<rparr>"

definition orphan_cache :: TweetCache where
  "orphan_cache = \<lparr>Tweets = [orphan_tweet], LastRefresh = 0\<rparr>"

definition orphan_handler :: RequestHandler where
  "orphan_handler = \<lparr>TweetCache = orphan_cache, Config = example_config\<rparr>"

definition empty_handler :: RequestHandler where
  "empty_handler = \<lparr>TweetCache = \<lparr>Tweets = [], LastRefresh = 0\<rparr>, Config = example_config\<rparr>"

definition two_tweets :: RequestHandler where
  "two_tweets =
     \<lparr>TweetCache = \<lparr>Tweets = [tweet_a, tweet_b], LastRefresh = 0\<rparr>, Config = example_config\<rparr>"

definition three_tweets :: RequestHandler where
  "three_tweets =
     \<lparr>TweetCache = \<lparr>Tweets = [tweet_a, tweet_b, tweet_c], LastRefresh = 0\<rparr>,
      Config = example_config\<rparr>"

definition stale_cache :: TweetCache where
  "stale_cache = \<lparr>Tweets = [tweet_a, tweet_b], LastRefresh = 0\<rparr>"

definition fresh_cache :: TweetCache where
  "fresh_cache = \<lparr>Tweets = [tweet_a, tweet_b], LastRefresh = 100 * Minute\<rparr>"

definition failing_fetch :: Iteration where
  "failing_fetch =
     \<lparr>waited = 0, reply = ([], Some UserTimelineError), fetch_took = 1000, overslept = 0\<rparr>"

definition short_fetch :: Iteration where
  "short_fetch = \<lparr>waited = 0, reply = ([tweet_c], None), fetch_took = 1000, overslept = 0\<rparr>"

definition full_fetch :: Iteration where
  "full_fetch =
     \<lparr>waited = 0, reply = ([tweet_c, tweet_a, tweet_b], None), fetch_took = 1000, overslept = 0\<rparr>"

section \<open>Properties of GetOnPosition\<close>

lemma GetOnPosition_in_range:
  assumes "0 \<le> pos" and "pos < int (length (Tweets tc))"
    and "User (Tweets tc ! nat pos) = Some user"
  shows "GetOnPosition tc pos =
           Inr (Text (Tweets tc ! nat pos) @ ''\<newline>\<newline>'' @ Name user, None)"
  using assms by (auto simp: GetOnPosition_def index_def)

lemma GetOnPosition_no_user:
  assumes "0 \<le> pos" and "pos < int (length (Tweets tc))"
    and "User (Tweets tc ! nat pos) = None"
  shows "GetOnPosition tc pos = Inl NilPointerDereference"
  using assms by (auto simp: GetOnPosition_def index_def)

lemma GetOnPosition_beyond:
  assumes "int (length (Tweets tc)) \<le> pos"
  shows "GetOnPosition tc pos = Inr ('''', Some TwitNotAvailable)"
  using assms by (auto simp: GetOnPosition_def)

lemma GetOnPosition_empty:
  assumes "Tweets tc = []"
  shows "GetOnPosition tc pos = Inr ('''', Some TwitNotAvailable)"
  using assms by (simp add: GetOnPosition_def)

lemma GetOnPosition_negative:
  assumes "pos < 0" and "Tweets tc \<noteq> []"
  shows "GetOnPosition tc pos = Inl (IndexOutOfRange pos (length (Tweets tc)))"
  using assms by (auto simp: GetOnPosition_def index_def)

text \<open>
  Claim C3, as stated, fails: on the cache of one tweet that has no user, position 0 is
  non-negative and less than the number of cached tweets, yet \<open>GetOnPosition\<close> does not
  succeed: reading \<open>tweet.User.Name\<close> through the nil pointer panics.
\<close>

theorem GetOnPosition_nil_user_counterexample:
  "(0::int) \<le> 0 \<and> (0::int) < int (length (Tweets orphan_cache)) \<and>
   GetOnPosition orphan_cache 0 = Inl NilPointerDereference"
  by (simp add: GetOnPosition_def index_def orphan_cache_def orphan_tweet_def)

text \<open>
  Claim C3, amended. For every non-negative position and every cache in which the tweet
  at that position, if there is one, has a user, \<open>GetOnPosition\<close> succeeds (nil error;
  the result is the tweet's text, a blank line and the user's name) if and only if the
  position is strictly less than the number of cached tweets; otherwise it returns the
  empty string with the error "twit not available". It does not panic there. Nothing is
  said of a position whose tweet has no user.
\<close>

theorem GetOnPosition_succeeds_iff:
  assumes "0 \<le> pos"
    and "pos < int (length (Tweets tc)) \<Longrightarrow> User (Tweets tc ! nat pos) = Some user"
  shows "((\<exists>s. GetOnPosition tc pos = Inr (s, None)) = (pos < int (length (Tweets tc)))) \<and>
         GetOnPosition tc pos =
           (if pos < int (length (Tweets tc))
            then Inr (Text (Tweets tc ! nat pos) @ ''\<newline>\<newline>'' @ Name user, None)
            else Inr ('''', Some TwitNotAvailable))"
proof (cases "pos < int (length (Tweets tc))")
  case True
  with assms show ?thesis by (simp add: GetOnPosition_in_range)
next
  case False
  then show ?thesis by (simp add: GetOnPosition_beyond)
qed

text \<open>
  Claim C3, amended, on the cache of two tweets, both with a user: position 1 is the
  second tweet, position 2 is not available.
\<close>

theorem GetOnPosition_succeeds_iff_witness:
  "(0::int) \<le> 1 \<and> User (Tweets stale_cache ! nat 1) = Some \<lparr>Name = ''bob''\<rparr> \<and>
   GetOnPosition stale_cache 1 = Inr (''second\<newline>\<newline>bob'', None) \<and>
   GetOnPosition stale_cache 2 = Inr ('''', Some TwitNotAvailable)"
  using GetOnPosition_succeeds_iff [of 1 stale_cache "\<lparr>Name = ''bob''\<rparr>"]
    GetOnPosition_succeeds_iff [of 2 stale_cache "\<lparr>Name = ''bob''\<rparr>"]
  by (simp add: stale_cache_def tweet_a_def tweet_b_def)

section \<open>Properties of the timeline page\<close>

lemma take_drop_step:
  assumes "n < length xs"
  shows "take (Suc k) (drop n xs) = xs ! n # take k (drop (Suc n) xs)"
  using assms by (simp add: Cons_nth_drop_Suc [symmetric])

lemma first_ten_user:
  assumes "list_all (\<lambda>tweet. User tweet \<noteq> None) (take 10 tweets)"
    and "n < 10" and "n < length tweets"
  shows "\<exists>user. User (tweets ! n) = Some user"
proof -
  from assms(2,3) have "n < length (take 10 tweets)" by simp
  with assms(1) have "User (take 10 tweets ! n) \<noteq> None"
    by (simp add: list_all_length)
  with assms(2) show ?thesis by auto
qed

text \<open>
  The invariant of the loop, when each of the first ten cached tweets has a user: from
  counter \<open>i\<close> on, the loop appends the rendering of the cached tweets at the positions
  \<open>i\<close> to 9, as far as they exist.
\<close>

lemma formatTimeline_loop_eq:
  assumes "0 \<le> i" and "i \<le> 10"
    and "list_all (\<lambda>tweet. User tweet \<noteq> None) (take 10 (Tweets (TweetCache rh)))"
  shows "formatTimeline_loop rh i timeline =
           Inr (timeline @ concat (map (render_item (Delimiter (UI (Config rh))))
                  (take (nat (10 - i)) (drop (nat i) (Tweets (TweetCache rh))))))"
  using assms
proof (induction rh i timeline rule: formatTimeline_loop.induct)
  case (1 rh i timeline)
  have p1: "0 \<le> i + 1" using "1.prems" by simp
  note users = "1.prems"(3)
  show ?case
  proof (cases "i < 10")
    case False
    with "1.prems" have "i = 10" by simp
    then show ?thesis by (subst formatTimeline_loop.simps) simp
  next
    case lt: True
    then have p2: "i + 1 \<le> 10" by simp
    have n: "nat (10 - i) = Suc (nat (10 - (i + 1)))" "nat (i + 1) = Suc (nat i)"
      using "1.prems" lt by simp_all
    show ?thesis
    proof (cases "i < int (length (Tweets (TweetCache rh)))")
      case True
      let ?t = "Tweets (TweetCache rh) ! nat i"
      have len: "nat i < length (Tweets (TweetCache rh))"
        using True "1.prems" by simp
      have "nat i < 10" using lt "1.prems" by simp
      with users len obtain user where u: "User ?t = Some user"
        using first_ten_user [of "Tweets (TweetCache rh)" "nat i"] by blast
      let ?r = "(Text ?t @ ''\<newline>\<newline>'' @ Name user, None :: error option)"
      have g: "GetOnPosition (TweetCache rh) i = Inr ?r"
        using "1.prems" True u by (simp add: GetOnPosition_in_range)
      have p3: "\<not> snd ?r \<noteq> None" by simp
      note ih = "1.IH"(2) [OF lt g p3 p1 p2 users]
      from len have td: "take (nat (10 - i)) (drop (nat i) (Tweets (TweetCache rh))) =
                   ?t # take (nat (10 - (i + 1))) (drop (nat (i + 1)) (Tweets (TweetCache rh)))"
        unfolding n by (rule take_drop_step)
      have "formatTimeline_loop rh i timeline =
              formatTimeline_loop rh (i + 1)
                (timeline @ ''\<newline>\<newline>'' @ fst ?r @ ''\<newline>\<newline>'' @ Delimiter (UI (Config rh)))"
        by (subst formatTimeline_loop.simps) (simp add: lt g)
      also note ih
      finally show ?thesis by (simp add: td render_item_def u)
    next
      case False
      let ?r = "('''', Some TwitNotAvailable)"
      from False have g: "GetOnPosition (TweetCache rh) i = Inr ?r"
        by (simp add: GetOnPosition_beyond)
      have p3: "snd ?r \<noteq> None" by simp
      note ih = "1.IH"(1) [OF lt g p3 p1 p2 users]
      have "length (Tweets (TweetCache rh)) \<le> nat i" using False "1.prems" by simp
      then have d: "drop (nat i) (Tweets (TweetCache rh)) = []"
                   "drop (nat (i + 1)) (Tweets (TweetCache rh)) = []"
        using "1.prems" by simp_all
      have "formatTimeline_loop rh i timeline = formatTimeline_loop rh (i + 1) timeline"
        by (subst formatTimeline_loop.simps) (simp add: lt g)
      also note ih
      finally show ?thesis by (simp add: d)
    qed
  qed
qed

lemma formatTimeline_eq:
  assumes "list_all (\<lambda>tweet. User tweet \<noteq> None) (take 10 (Tweets (TweetCache rh)))"
  shows "formatTimeline rh = Inr (timeline_spec rh)"
  using formatTimeline_loop_eq [of 0 rh "''''"] assms
  by (simp add: formatTimeline_def timeline_spec_def)

text \<open>When the tweet at position 0 has no user, the first round of the loop panics.\<close>

lemma formatTimeline_no_user:
  assumes "Tweets (TweetCache rh) \<noteq> []" and "User (Tweets (TweetCache rh) ! 0) = None"
  shows "formatTimeline rh = Inl NilPointerDereference"
proof -
  have "GetOnPosition (TweetCache rh) 0 = Inl NilPointerDereference"
    using assms GetOnPosition_no_user [of 0 "TweetCache rh"] by simp
  then show ?thesis
    unfolding formatTimeline_def by (subst formatTimeline_loop.simps) simp
qed

text \<open>
  Claim C5, as stated, fails: the cache of one tweet that has no user holds fewer than
  ten items, yet the timeline is not rendered: \<open>formatTimeline\<close> panics on the nil user.
\<close>

theorem formatTimeline_nil_user_counterexample:
  "length (Tweets (TweetCache orphan_handler)) = 1 \<and>
   formatTimeline orphan_handler = Inl NilPointerDereference"
proof -
  have t: "Tweets (TweetCache orphan_handler) = [orphan_tweet]"
    by (simp add: orphan_handler_def orphan_cache_def)
  have "User (Tweets (TweetCache orphan_handler) ! 0) = None"
    by (simp add: t orphan_tweet_def)
  with t show ?thesis by (simp add: formatTimeline_no_user)
qed

text \<open>
  Claim C5, amended. When each of the first ten cached tweets has a user,
  \<open>formatTimeline\<close> does not panic, and its result is the rendering of the first ten
  cached tweets in order, each followed by the configured delimiter and nothing in the
  place of a missing position: with \<open>n\<close> tweets in the cache these are \<open>min n 10\<close> items,
  never more than ten. Nothing is said of a cache with a tweet that has no user among its
  first ten.
\<close>

theorem formatTimeline_renders_first_ten:
  assumes "list_all (\<lambda>tweet. User tweet \<noteq> None) (take 10 (Tweets (TweetCache rh)))"
  shows "formatTimeline rh =
           Inr (concat (map (render_item (Delimiter (UI (Config rh))))
                  (take 10 (Tweets (TweetCache rh))))) \<and>
         length (take 10 (Tweets (TweetCache rh))) = min (length (Tweets (TweetCache rh))) 10"
  using formatTimeline_eq [OF assms] by (simp add: timeline_spec_def)

text \<open>
  Claim C5, amended, on a cache of three tweets, each with a user: the timeline is the
  three items, each followed by the delimiter, and nothing for the positions 3 to 9.
\<close>

theorem formatTimeline_renders_first_ten_witness:
  "list_all (\<lambda>tweet. User tweet \<noteq> None) (take 10 (Tweets (TweetCache three_tweets))) \<and>
   formatTimeline three_tweets =
     Inr (''\<newline>\<newline>first\<newline>\<newline>amy\<newline>\<newline>---'' @
          ''\<newline>\<newline>second\<newline>\<newline>bob\<newline>\<newline>---'' @
          ''\<newline>\<newline>third\<newline>\<newline>cat\<newline>\<newline>---'')"
proof -
  have u: "list_all (\<lambda>tweet. User tweet \<noteq> None) (take 10 (Tweets (TweetCache three_tweets)))"
    by (simp add: three_tweets_def tweet_a_def tweet_b_def tweet_c_def)
  from u formatTimeline_renders_first_ten [OF u] show ?thesis
    by (simp add: three_tweets_def example_config_def tweet_a_def tweet_b_def tweet_c_def
        render_item_def)
qed

section \<open>Properties of the single-item page and of the header\<close>

lemma formatTweet_unavailable:
  assumes "Tweets (TweetCache rh) = [] \<or> int (length (Tweets (TweetCache rh))) \<le> pos"
  shows "formatTweet rh pos = Inr ''''"
  using assms by (auto simp: formatTweet_def GetOnPosition_empty GetOnPosition_beyond)

lemma formatTweet_available:
  assumes "0 \<le> pos" and "pos < int (length (Tweets (TweetCache rh)))"
    and "User (Tweets (TweetCache rh) ! nat pos) = Some user"
  shows "formatTweet rh pos =
           Inr (''\<newline>\<newline>'' @ Text (Tweets (TweetCache rh) ! nat pos) @ ''\<newline>\<newline>'' @ Name user)"
  using assms by (simp add: formatTweet_def GetOnPosition_in_range)

lemma formatTweet_no_user:
  assumes "0 \<le> pos" and "pos < int (length (Tweets (TweetCache rh)))"
    and "User (Tweets (TweetCache rh) ! nat pos) = None"
  shows "formatTweet rh pos = Inl NilPointerDereference"
  using assms by (simp add: formatTweet_def GetOnPosition_no_user)

lemma formatTweet_negative:
  assumes "pos < 0" and "Tweets (TweetCache rh) \<noteq> []"
  shows "formatTweet rh pos = Inl (IndexOutOfRange pos (length (Tweets (TweetCache rh))))"
  using assms by (simp add: formatTweet_def GetOnPosition_negative)

text \<open>What \<open>showTweet\<close> returns, for every offset and every cache.\<close>

lemma showTweet_result:
  "showTweet os_Open rh pos =
     (if pos < 0 \<and> Tweets (TweetCache rh) \<noteq> []
      then Inl (IndexOutOfRange pos (length (Tweets (TweetCache rh))))
      else if 0 \<le> pos \<and> pos < int (length (Tweets (TweetCache rh)))
      then (case User (Tweets (TweetCache rh) ! nat pos) of
              None \<Rightarrow> Inl NilPointerDereference
            | Some user \<Rightarrow>
                Inr \<lparr>Status = 20, Meta = ''text/gemini'',
                     Body = Some (getHeader os_Open rh @
                       (''\<newline>\<newline>'' @ Text (Tweets (TweetCache rh) ! nat pos) @ ''\<newline>\<newline>'' @
                        Name user) @ getFooter)\<rparr>)
      else Inr \<lparr>Status = 20, Meta = ''text/gemini'',
                Body = Some (getHeader os_Open rh @ getFooter)\<rparr>)"
proof -
  consider (neg) "pos < 0" "Tweets (TweetCache rh) \<noteq> []"
    | (empty) "Tweets (TweetCache rh) = []"
    | (beyond) "int (length (Tweets (TweetCache rh))) \<le> pos" "Tweets (TweetCache rh) \<noteq> []"
    | (nil) "0 \<le> pos" "pos < int (length (Tweets (TweetCache rh)))"
        "User (Tweets (TweetCache rh) ! nat pos) = None"
    | (inside) user where "0 \<le> pos" "pos < int (length (Tweets (TweetCache rh)))"
        "User (Tweets (TweetCache rh) ! nat pos) = Some user"
    by (cases "pos < 0"; cases "Tweets (TweetCache rh) = []";
        cases "pos < int (length (Tweets (TweetCache rh)))";
        cases "User (Tweets (TweetCache rh) ! nat pos)") auto
  then show ?thesis
  proof cases
    case neg
    then show ?thesis by (simp add: showTweet_def formatTweet_negative)
  next
    case empty
    then show ?thesis by (auto simp: showTweet_def formatTweet_unavailable wrapBody_def)
  next
    case beyond
    then show ?thesis by (auto simp: showTweet_def formatTweet_unavailable wrapBody_def)
  next
    case nil
    then show ?thesis by (simp add: showTweet_def formatTweet_no_user)
  next
    case inside
    then show ?thesis by (simp add: showTweet_def formatTweet_available wrapBody_def)
  qed
qed

lemma showTimeline_result:
  assumes "list_all (\<lambda>tweet. User tweet \<noteq> None) (take 10 (Tweets (TweetCache rh)))"
  shows "showTimeline os_Open rh =
     Inr \<lparr>Status = 20, Meta = ''text/gemini'',
          Body = Some (getHeader os_Open rh @ timeline_spec rh @ getFooter)\<rparr>"
  using formatTimeline_eq [OF assms] by (simp add: showTimeline_def wrapBody_def)

lemma showTimeline_status:
  assumes "showTimeline os_Open rh = Inr resp"
  shows "Status resp = 20 \<and> Meta resp = ''text/gemini'' \<and> Body resp \<noteq> None"
  using assms by (auto simp: showTimeline_def split: sum.splits)

lemma getHeader_no_logo: "getHeader no_logo rh = menu"
  by (simp add: getHeader_def no_logo_def io_Copy_String_def)

lemma Atoi_examples:
  "Atoi ''1'' = (1, None)" "Atoi ''abc'' = (0, Some ErrSyntax)"
  "Atoi ''-1'' = (- 1, None)" "Atoi ''-2'' = (- 2, None)" "Atoi ''0'' = (0, None)"
  by (simp_all add: Atoi_def isDigit_def)

lemma example_tweets:
  "Tweets (TweetCache empty_handler) = []"
  "Tweets (TweetCache two_tweets) = [tweet_a, tweet_b]"
  "Tweets (TweetCache orphan_handler) = [orphan_tweet]"
  by (simp_all add: empty_handler_def two_tweets_def orphan_handler_def orphan_cache_def)

section \<open>Properties of Handle\<close>

lemma Handle_root: "Path (URL r) = ''/'' \<Longrightarrow> Handle os_Open rh r = showTweet os_Open rh 0"
  by (simp add: Handle_def)

lemma Handle_timeline:
  "Path (URL r) = ''/timeline'' \<Longrightarrow> Handle os_Open rh r = showTimeline os_Open rh"
  by (simp add: Handle_def)

lemma Handle_prompt:
  "Path (URL r) = ''/select_tweet'' \<Longrightarrow> Query (URL r) = [] \<Longrightarrow>
     Handle os_Open rh r = Inr \<lparr>Status = 10, Meta = ''Get tweet offset. f.e. 5'', Body = None\<rparr>"
  by (simp add: Handle_def)

lemma Handle_parse_error:
  "Path (URL r) = ''/select_tweet'' \<Longrightarrow> Query (URL r) \<noteq> [] \<Longrightarrow>
   snd (Atoi (getFirstKeyFromURL (URL r))) \<noteq> None \<Longrightarrow>
     Handle os_Open rh r =
       Inr \<lparr>Status = 42, Meta = ''Failed to parse input. Please use numbers.'', Body = None\<rparr>"
  by (simp add: Handle_def)

lemma Handle_offset:
  "Path (URL r) = ''/select_tweet'' \<Longrightarrow> Query (URL r) \<noteq> [] \<Longrightarrow>
   snd (Atoi (getFirstKeyFromURL (URL r))) = None \<Longrightarrow>
     Handle os_Open rh r = showTweet os_Open rh (fst (Atoi (getFirstKeyFromURL (URL r))))"
  by (simp add: Handle_def)

lemma Handle_unknown:
  "Path (URL r) \<noteq> ''/'' \<Longrightarrow> Path (URL r) \<noteq> ''/timeline'' \<Longrightarrow>
   Path (URL r) \<noteq> ''/select_tweet'' \<Longrightarrow>
     Handle os_Open rh r = Inr \<lparr>Status = 51, Meta = ''Unknown location'', Body = None\<rparr>"
  by (simp add: Handle_def)

lemma all_users_nth:
  assumes "list_all (\<lambda>tweet. User tweet \<noteq> None) tweets" and "n < length tweets"
  shows "\<exists>user. User (tweets ! n) = Some user"
  using assms by (auto simp: list_all_length)

lemma all_users_take:
  assumes "list_all (\<lambda>tweet. User tweet \<noteq> None) tweets"
  shows "list_all (\<lambda>tweet. User tweet \<noteq> None) (take k tweets)"
  using assms by (auto simp: list_all_length)

text \<open>
  When every cached tweet has a user, the requests on which \<open>Handle\<close> panics are exactly
  those for \<open>/select_tweet\<close> whose first query key \<open>strconv.Atoi\<close> parses as a negative
  number, while the cache is not empty. (A cached tweet with no user is a second cause
  of a panic, on every page that renders it.)
\<close>

lemma Handle_panics_iff:
  assumes "list_all (\<lambda>tweet. User tweet \<noteq> None) (Tweets (TweetCache rh))"
  shows "(\<exists>p. Handle os_Open rh r = Inl p) =
     (Path (URL r) = ''/select_tweet'' \<and> Query (URL r) \<noteq> [] \<and>
      snd (Atoi (getFirstKeyFromURL (URL r))) = None \<and>
      fst (Atoi (getFirstKeyFromURL (URL r))) < 0 \<and>
      Tweets (TweetCache rh) \<noteq> [])"
proof -
  have s: "(\<exists>p. showTweet os_Open rh pos = Inl p) = (pos < 0 \<and> Tweets (TweetCache rh) \<noteq> [])"
    for pos
  proof (cases "0 \<le> pos \<and> pos < int (length (Tweets (TweetCache rh)))")
    case True
    then have "nat pos < length (Tweets (TweetCache rh))" by auto
    with assms obtain user where "User (Tweets (TweetCache rh) ! nat pos) = Some user"
      using all_users_nth by blast
    with True show ?thesis by (simp add: showTweet_result)
  next
    case False
    then show ?thesis by (auto simp: showTweet_result)
  qed
  have t: "\<not> (\<exists>p. showTimeline os_Open rh = Inl p)"
    using showTimeline_result [OF all_users_take [OF assms]] by simp
  show ?thesis
    using t s [of 0] s [of "fst (Atoi (getFirstKeyFromURL (URL r)))"]
    by (auto simp: Handle_def Let_def)
qed

text \<open>Every response that \<open>Handle\<close> returns has one of four forms, by the route taken.\<close>

lemma Handle_status_codes:
  assumes "Handle os_Open rh r = Inr resp"
  shows "(Status resp = 20 \<and> Meta resp = ''text/gemini'' \<and> Body resp \<noteq> None \<and>
            (Path (URL r) = ''/'' \<or> Path (URL r) = ''/timeline'' \<or>
             Path (URL r) = ''/select_tweet'' \<and> Query (URL r) \<noteq> [] \<and>
               snd (Atoi (getFirstKeyFromURL (URL r))) = None)) \<or>
         (Status resp = 10 \<and> Meta resp = ''Get tweet offset. f.e. 5'' \<and> Body resp = None \<and>
            Path (URL r) = ''/select_tweet'' \<and> Query (URL r) = []) \<or>
         (Status resp = 42 \<and> Meta resp = ''Failed to parse input. Please use numbers.'' \<and>
            Body resp = None \<and> Path (URL r) = ''/select_tweet'' \<and> Query (URL r) \<noteq> [] \<and>
            snd (Atoi (getFirstKeyFromURL (URL r))) \<noteq> None) \<or>
         (Status resp = 51 \<and> Meta resp = ''Unknown location'' \<and> Body resp = None \<and>
            Path (URL r) \<noteq> ''/'' \<and> Path (URL r) \<noteq> ''/timeline'' \<and>
            Path (URL r) \<noteq> ''/select_tweet'')"
proof -
  have s: "Status resp = 20 \<and> Meta resp = ''text/gemini'' \<and> Body resp \<noteq> None"
    if "showTweet os_Open rh pos = Inr resp" for pos
    using that by (auto simp: showTweet_def split: sum.splits)
  show ?thesis
    using assms s showTimeline_status [of os_Open rh resp]
    by (auto simp: Handle_def Let_def split: if_splits)
qed

text \<open>
  Claim C1. The claim is that \<open>Handle\<close> returns a response for every request, every
  query (a key that parses as a negative integer included) and every cache. The code does
  not: for \<open>/select_tweet?-1\<close> and a cache of one tweet, \<open>strconv.Atoi\<close> returns -1 with
  no error, \<open>GetOnPosition\<close> checks the position against the upper bound only, and the
  index \<open>tc.Tweets[-1]\<close> panics. The file system, the tweet, the time of the last
  refresh and the configuration are arbitrary.
\<close>

theorem Handle_negative_offset_panics:
  "Handle os_Open
     \<lparr>TweetCache = \<lparr>Tweets = [tweet], LastRefresh = t\<rparr>, Config = c\<rparr>
     \<lparr>URL = \<lparr>Path = ''/select_tweet'', Query = [(''-1'', [''''])]\<rparr>\<rparr> =
   Inl (IndexOutOfRange (- 1) 1)"
  by (simp add: Atoi_examples Handle_def getFirstKeyFromURL_def showTweet_def formatTweet_def
      GetOnPosition_def index_def)

text \<open>
  Claim C2, as stated, fails, in two places. The key \<open>-1\<close> is not a non-negative integer,
  yet \<open>strconv.Atoi\<close> parses it without an error, so the request is not answered with the
  client error 42: on the empty cache the answer is the success page with no content.
  And the key \<open>0\<close> parses as the non-negative integer 0, yet on the cache of one tweet
  that has no user the request is not answered with the page for position 0: the call
  panics on the nil user.
\<close>

theorem select_tweet_negative_key_counterexample:
  "Atoi ''-1'' = (- 1, None) \<and>
   Handle no_logo empty_handler \<lparr>URL = \<lparr>Path = ''/select_tweet'', Query = [(''-1'', [''''])]\<rparr>\<rparr> =
     Inr \<lparr>Status = 20, Meta = ''text/gemini'', Body = Some (menu @ getFooter)\<rparr> \<and>
   Handle no_logo empty_handler \<lparr>URL = \<lparr>Path = ''/select_tweet'', Query = [(''-1'', [''''])]\<rparr>\<rparr> \<noteq>
     Inr \<lparr>Status = 42, Meta = ''Failed to parse input. Please use numbers.'', Body = None\<rparr> \<and>
   Atoi ''0'' = (0, None) \<and>
   Handle no_logo orphan_handler \<lparr>URL = \<lparr>Path = ''/select_tweet'', Query = [(''0'', [''''])]\<rparr>\<rparr> =
     Inl NilPointerDereference"
  by (simp add: Atoi_examples getHeader_no_logo example_tweets Handle_def getFirstKeyFromURL_def
      showTweet_result orphan_tweet_def)

text \<open>
  Claim C2, amended. For every request to \<open>/select_tweet\<close>: with no query parameters
  \<open>Handle\<close> returns the input prompt (status 10); with a single query key that
  \<open>strconv.Atoi\<close> parses as a non-negative integer \<open>n\<close>, and a cache in which the tweet
  at position \<open>n\<close>, if there is one, has a user, it returns the single-item page for
  position \<open>n\<close> (status 20; the content is the tweet at \<open>n\<close>, or empty when the cache has
  no such position); with a single query key that \<open>strconv.Atoi\<close> rejects it returns the
  client error (status 42). Nothing is said of a key that parses as a negative integer,
  nor of a position whose tweet has no user.
\<close>

theorem select_tweet_routing:
  assumes "Path (URL r) = ''/select_tweet''"
  shows "(Query (URL r) = [] \<longrightarrow>
            Handle os_Open rh r =
              Inr \<lparr>Status = 10, Meta = ''Get tweet offset. f.e. 5'', Body = None\<rparr>) \<and>
         (Query (URL r) = [(k, v)] \<longrightarrow> Atoi k = (n, None) \<longrightarrow> 0 \<le> n \<longrightarrow>
          (n < int (length (Tweets (TweetCache rh))) \<longrightarrow>
             User (Tweets (TweetCache rh) ! nat n) = Some user) \<longrightarrow>
            Handle os_Open rh r =
              Inr \<lparr>Status = 20, Meta = ''text/gemini'',
                   Body = Some (getHeader os_Open rh @
                     (if n < int (length (Tweets (TweetCache rh)))
                      then ''\<newline>\<newline>'' @ Text (Tweets (TweetCache rh) ! nat n) @ ''\<newline>\<newline>'' @
                           Name user
                      else '''') @ getFooter)\<rparr>) \<and>
         (Query (URL r) = [(k, v)] \<longrightarrow> Atoi k = (n, Some e) \<longrightarrow>
            Handle os_Open rh r =
              Inr \<lparr>Status = 42, Meta = ''Failed to parse input. Please use numbers.'',
                   Body = None\<rparr>)"
  using assms
  by (auto simp: Handle_prompt Handle_parse_error Handle_offset getFirstKeyFromURL_def
      showTweet_result)

text \<open>
  Claim C2, amended, on the cache of two tweets, both with a user: \<open>/select_tweet\<close> is
  answered with the prompt, \<open>/select_tweet?1\<close> with the page of the second tweet, and
  \<open>/select_tweet?abc\<close> with the client error.
\<close>

theorem select_tweet_routing_witness:
  "Handle no_logo two_tweets \<lparr>URL = \<lparr>Path = ''/select_tweet'', Query = []\<rparr>\<rparr> =
     Inr \<lparr>Status = 10, Meta = ''Get tweet offset. f.e. 5'', Body = None\<rparr> \<and>
   User (Tweets (TweetCache two_tweets) ! nat 1) = Some \<lparr>Name = ''bob''\<rparr> \<and>
   Handle no_logo two_tweets \<lparr>URL = \<lparr>Path = ''/select_tweet'', Query = [(''1'', [''''])]\<rparr>\<rparr> =
     Inr \<lparr>Status = 20, Meta = ''text/gemini'',
          Body = Some (menu @ ''\<newline>\<newline>second\<newline>\<newline>bob'' @ getFooter)\<rparr> \<and>
   Handle no_logo two_tweets \<lparr>URL = \<lparr>Path = ''/select_tweet'', Query = [(''abc'', [''''])]\<rparr>\<rparr> =
     Inr \<lparr>Status = 42, Meta = ''Failed to parse input. Please use numbers.'', Body = None\<rparr>"
  using
    select_tweet_routing [of "\<lparr>URL = \<lparr>Path = ''/select_tweet'', Query = []\<rparr>\<rparr>"
      no_logo two_tweets]
    select_tweet_routing [of "\<lparr>URL = \<lparr>Path = ''/select_tweet'', Query = [(''1'', [''''])]\<rparr>\<rparr>"
      no_logo two_tweets "''1''" "['''']" 1 "\<lparr>Name = ''bob''\<rparr>"]
    select_tweet_routing [of "\<lparr>URL = \<lparr>Path = ''/select_tweet'', Query = [(''abc'', [''''])]\<rparr>\<rparr>"
      no_logo two_tweets "''abc''" "['''']" 0 "\<lparr>Name = ''bob''\<rparr>" ErrSyntax]
  by (simp add: Atoi_examples getHeader_no_logo example_tweets tweet_b_def)

text \<open>
  Claim C7. When the cache is empty, or the position asked for is at or beyond the number
  of cached tweets, the single-item page is the success response (status 20, meta
  \<open>text/gemini\<close>) whose body is the header followed at once by the footer. This is the
  answer to \<open>/\<close> on an empty cache, and to \<open>/select_tweet\<close> with a key that parses as
  such a position.
\<close>

theorem single_item_page_unavailable:
  assumes "Tweets (TweetCache rh) = [] \<or> int (length (Tweets (TweetCache rh))) \<le> pos"
  shows "showTweet os_Open rh pos =
           Inr \<lparr>Status = 20, Meta = ''text/gemini'',
                Body = Some (getHeader os_Open rh @ getFooter)\<rparr> \<and>
         (Path (URL r) = ''/'' \<longrightarrow> pos = 0 \<longrightarrow>
            Handle os_Open rh r =
              Inr \<lparr>Status = 20, Meta = ''text/gemini'',
                   Body = Some (getHeader os_Open rh @ getFooter)\<rparr>) \<and>
         (Path (URL r) = ''/select_tweet'' \<longrightarrow> Query (URL r) \<noteq> [] \<longrightarrow>
          Atoi (getFirstKeyFromURL (URL r)) = (pos, None) \<longrightarrow>
            Handle os_Open rh r =
              Inr \<lparr>Status = 20, Meta = ''text/gemini'',
                   Body = Some (getHeader os_Open rh @ getFooter)\<rparr>)"
proof -
  have s: "showTweet os_Open rh pos =
           Inr \<lparr>Status = 20, Meta = ''text/gemini'',
                Body = Some (getHeader os_Open rh @ getFooter)\<rparr>"
    using formatTweet_unavailable [OF assms] by (simp add: showTweet_def wrapBody_def)
  show ?thesis
    using s by (auto simp: Handle_root Handle_offset)
qed

text \<open>
  Claim C7 on the empty cache, with no logo file: the answer to \<open>/\<close> is the success
  response whose body is the menu and the footer.
\<close>

theorem single_item_page_unavailable_witness:
  "Tweets (TweetCache empty_handler) = [] \<and>
   Handle no_logo empty_handler \<lparr>URL = \<lparr>Path = ''/'', Query = []\<rparr>\<rparr> =
     Inr \<lparr>Status = 20, Meta = ''text/gemini'',
          Body = Some (''\<newline>\<newline>=> / Last tweet\<newline>=> /timeline Timeline\<newline>=> /select_tweet Tweet selector\<newline>\<newline>'' @
                       ''\<newline>\<newline>=> https://github.com/vegasq/gemini-twitter-mirror Fork me on GitHub\<newline>'')\<rparr>"
  using single_item_page_unavailable [of empty_handler 0 no_logo
      "\<lparr>URL = \<lparr>Path = ''/'', Query = []\<rparr>\<rparr>"]
  by (simp add: example_tweets getHeader_no_logo getFooter_def menu_def)

text \<open>
  Claim C9. When the logo file cannot be opened (\<open>os.Open\<close> returns the nil file and an
  error, whichever it is), the header is the empty logo followed by a blank line, the
  three links to \<open>/\<close>, \<open>/timeline\<close> and \<open>/select_tweet\<close>, and a blank line. For every
  request \<open>Handle\<close> then returns what it returns when the logo file exists and is empty:
  the missing file shows in no response. On the empty cache, for one, the answer to \<open>/\<close>
  is the success response whose body is that header and the footer.
\<close>

theorem getHeader_missing_logo:
  assumes "os_Open (AsciiLogoFile (UI (Config rh))) = (None, Some e)"
  shows "getHeader os_Open rh =
           '''' @ ''\<newline>\<newline>=> / Last tweet\<newline>=> /timeline Timeline\<newline>=> /select_tweet Tweet selector\<newline>\<newline>'' \<and>
         Handle os_Open rh r =
           Handle (os_Open (AsciiLogoFile (UI (Config rh)) := (Some '''', None))) rh r \<and>
         (Path (URL r) = ''/'' \<longrightarrow> Tweets (TweetCache rh) = [] \<longrightarrow>
            Handle os_Open rh r =
              Inr \<lparr>Status = 20, Meta = ''text/gemini'',
                   Body = Some (''\<newline>\<newline>=> / Last tweet\<newline>=> /timeline Timeline\<newline>=> /select_tweet Tweet selector\<newline>\<newline>'' @
                                ''\<newline>\<newline>=> https://github.com/vegasq/gemini-twitter-mirror Fork me on GitHub\<newline>'')\<rparr>)"
proof -
  have h: "getHeader os_Open rh = menu"
    using assms by (simp add: getHeader_def io_Copy_String_def)
  have h': "getHeader (os_Open (AsciiLogoFile (UI (Config rh)) := (Some '''', None))) rh = menu"
    by (simp add: getHeader_def io_Copy_String_def)
  have eq: "Handle os_Open rh r =
          Handle (os_Open (AsciiLogoFile (UI (Config rh)) := (Some '''', None))) rh r"
    unfolding Handle_def showTweet_def showTimeline_def wrapBody_def h h' ..
  have root: "Handle os_Open rh r =
      Inr \<lparr>Status = 20, Meta = ''text/gemini'', Body = Some (menu @ getFooter)\<rparr>"
    if "Path (URL r) = ''/''" "Tweets (TweetCache rh) = []"
    using that h by (simp add: Handle_root showTweet_result)
  from h eq root show ?thesis by (simp add: menu_def getFooter_def)
qed

text \<open>
  Claim C9 with no logo file and the cache of two tweets: the header is the blank line,
  the three links and the blank line, and the answer to \<open>/\<close> is the success page of the
  first tweet under that header.
\<close>

theorem getHeader_missing_logo_witness:
  "no_logo (AsciiLogoFile (UI (Config two_tweets))) =
     (None, Some (PathError ''open'' ''logo.txt'' 2)) \<and>
   getHeader no_logo two_tweets =
     ''\<newline>\<newline>=> / Last tweet\<newline>=> /timeline Timeline\<newline>=> /select_tweet Tweet selector\<newline>\<newline>'' \<and>
   Handle no_logo two_tweets \<lparr>URL = \<lparr>Path = ''/'', Query = []\<rparr>\<rparr> =
     Inr \<lparr>Status = 20, Meta = ''text/gemini'',
          Body = Some (''\<newline>\<newline>=> / Last tweet\<newline>=> /timeline Timeline\<newline>=> /select_tweet Tweet selector\<newline>\<newline>'' @
                       ''\<newline>\<newline>first\<newline>\<newline>amy'' @
                       ''\<newline>\<newline>=> https://github.com/vegasq/gemini-twitter-mirror Fork me on GitHub\<newline>'')\<rparr>"
proof -
  have o: "no_logo (AsciiLogoFile (UI (Config two_tweets))) =
             (None, Some (PathError ''open'' ''logo.txt'' 2))"
    by (simp add: no_logo_def two_tweets_def example_config_def)
  have "Handle no_logo two_tweets \<lparr>URL = \<lparr>Path = ''/'', Query = []\<rparr>\<rparr> =
          Inr \<lparr>Status = 20, Meta = ''text/gemini'',
               Body = Some (menu @ ''\<newline>\<newline>first\<newline>\<newline>amy'' @ getFooter)\<rparr>"
    by (simp add: Handle_root showTweet_result getHeader_no_logo example_tweets tweet_a_def)
  with o getHeader_missing_logo [of no_logo two_tweets "PathError ''open'' ''logo.txt'' 2"
      "\<lparr>URL = \<lparr>Path = ''/'', Query = []\<rparr>\<rparr>"]
  show ?thesis by (simp add: menu_def getFooter_def)
qed

text \<open>
  Claim C10. The claim is that \<open>Handle\<close> emits, for every request, one of the status
  codes 20, 10, 42 and 51, and 20 for every \<open>/select_tweet\<close> request whose key is parsed.
  The code emits no status for \<open>/select_tweet?-2\<close> on the cache of two tweets: the key is
  parsed (no error), and the call ends in the panic of the index \<open>tc.Tweets[-2]\<close>.
\<close>

theorem Handle_no_status_on_negative_offset:
  "snd (Atoi ''-2'') = None \<and>
   Handle no_logo two_tweets \<lparr>URL = \<lparr>Path = ''/select_tweet'', Query = [(''-2'', [''''])]\<rparr>\<rparr> =
     Inl (IndexOutOfRange (- 2) 2)"
  by (simp add: Atoi_examples example_tweets Handle_def getFirstKeyFromURL_def showTweet_result)

section \<open>Properties of the refresh loop\<close>

text \<open>The four ways through one iteration of the loop.\<close>

lemma Refresher_body_not_due:
  assumes "Since (clock + int (waited it)) (LastRefresh tc) < Minute * 15"
  shows "Refresher_body it (tc, clock) = ((tc, clock + int (waited it)), [])"
  using assms by simp

lemma Refresher_body_error:
  assumes "\<not> Since (clock + int (waited it)) (LastRefresh tc) < Minute * 15"
    and "snd (reply it) = Some e"
  shows "Refresher_body it (tc, clock) =
           ((tc, clock + int (waited it) + int (fetch_took it) + Minute * 5 + int (overslept it)),
            [Fetch (clock + int (waited it)),
             Sleep (clock + int (waited it) + int (fetch_took it)) (Minute * 5)])"
  using assms by (simp add: getTweets_def Let_def)

lemma Refresher_body_short:
  assumes "\<not> Since (clock + int (waited it)) (LastRefresh tc) < Minute * 15"
    and "snd (reply it) = None" and "length (fst (reply it)) < length (Tweets tc)"
  shows "Refresher_body it (tc, clock) =
           ((tc, clock + int (waited it) + int (fetch_took it)), [Fetch (clock + int (waited it))])"
  using assms by (simp add: getTweets_def Let_def)

lemma Refresher_body_commit:
  assumes "\<not> Since (clock + int (waited it)) (LastRefresh tc) < Minute * 15"
    and "snd (reply it) = None" and "\<not> length (fst (reply it)) < length (Tweets tc)"
  shows "Refresher_body it (tc, clock) =
           ((tc\<lparr>Tweets := fst (reply it),
                LastRefresh := clock + int (waited it) + int (fetch_took it)\<rparr>,
             clock + int (waited it) + int (fetch_took it)),
            [Fetch (clock + int (waited it))])"
  using assms by (simp add: getTweets_def Let_def)

lemma Refresher_body_cases:
  obtains (not_due) "Since (clock + int (waited it)) (LastRefresh tc) < Minute * 15"
  | (error) e where "\<not> Since (clock + int (waited it)) (LastRefresh tc) < Minute * 15"
      "snd (reply it) = Some e"
  | (short) "\<not> Since (clock + int (waited it)) (LastRefresh tc) < Minute * 15"
      "snd (reply it) = None" "length (fst (reply it)) < length (Tweets tc)"
  | (commit) "\<not> Since (clock + int (waited it)) (LastRefresh tc) < Minute * 15"
      "snd (reply it) = None" "\<not> length (fst (reply it)) < length (Tweets tc)"
  by (cases "snd (reply it)") auto

lemma cooldown_nonneg: "0 \<le> Minute * 5"
  by (simp add: Minute_def)

text \<open>An iteration never shortens the cache and never turns the clock back.\<close>

lemma Refresher_body_length:
  "length (Tweets tc) \<le> length (Tweets (fst (fst (Refresher_body it (tc, clock)))))"
proof (cases rule: Refresher_body_cases [of clock it tc])
  case not_due
  show ?thesis unfolding Refresher_body_not_due [OF not_due] by simp
next
  case (error e)
  show ?thesis unfolding Refresher_body_error [OF error] by simp
next
  case short
  show ?thesis unfolding Refresher_body_short [OF short] by simp
next
  case commit
  show ?thesis unfolding Refresher_body_commit [OF commit] using commit(3) by simp
qed

lemma Refresher_body_clock:
  "clock \<le> snd (fst (Refresher_body it (tc, clock)))"
proof (cases rule: Refresher_body_cases [of clock it tc])
  case not_due
  show ?thesis unfolding Refresher_body_not_due [OF not_due] by simp
next
  case (error e)
  show ?thesis unfolding Refresher_body_error [OF error] using cooldown_nonneg by simp
next
  case short
  show ?thesis unfolding Refresher_body_short [OF short] by simp
next
  case commit
  show ?thesis unfolding Refresher_body_commit [OF commit] by simp
qed

lemma Refresher_body_fetch_times:
  "list_all (\<lambda>t. clock \<le> t) (fetch_times (snd (Refresher_body it (tc, clock))))"
proof (cases rule: Refresher_body_cases [of clock it tc])
  case not_due
  show ?thesis unfolding Refresher_body_not_due [OF not_due] by simp
next
  case (error e)
  show ?thesis unfolding Refresher_body_error [OF error] by simp
next
  case short
  show ?thesis unfolding Refresher_body_short [OF short] by simp
next
  case commit
  show ?thesis unfolding Refresher_body_commit [OF commit] by simp
qed

lemma fetch_times_append: "fetch_times (xs @ ys) = fetch_times xs @ fetch_times ys"
  by (induction xs rule: fetch_times.induct) simp_all

lemma list_all_later:
  fixes a b :: int
  assumes "a \<le> b" and "list_all (\<lambda>t. b \<le> t) ts"
  shows "list_all (\<lambda>t. a \<le> t) ts"
  using assms by (induction ts) auto

text \<open>The same for a run of any number of iterations.\<close>

lemma Refresher_length:
  "length (Tweets tc) \<le> length (Tweets (fst (fst (Refresher its (tc, clock)))))"
proof (induction its arbitrary: tc clock)
  case Nil
  show ?case by simp
next
  case (Cons it its)
  obtain tc' clock' where s: "fst (Refresher_body it (tc, clock)) = (tc', clock')"
    by (cases "fst (Refresher_body it (tc, clock))")
  have "length (Tweets tc) \<le> length (Tweets tc')"
    using Refresher_body_length [of tc it clock] s by simp
  also have "\<dots> \<le> length (Tweets (fst (fst (Refresher its (tc', clock')))))"
    by (rule Cons.IH)
  finally show ?case by (simp add: s Let_def del: Refresher_body.simps)
qed

lemma Refresher_fetch_times:
  "list_all (\<lambda>t. clock \<le> t) (fetch_times (snd (Refresher its (tc, clock))))"
proof (induction its arbitrary: tc clock)
  case Nil
  show ?case by simp
next
  case (Cons it its)
  obtain tc' clock' where s: "fst (Refresher_body it (tc, clock)) = (tc', clock')"
    by (cases "fst (Refresher_body it (tc, clock))")
  have c: "clock \<le> clock'"
    using Refresher_body_clock [of clock it tc] s by simp
  have "list_all (\<lambda>t. clock' \<le> t) (fetch_times (snd (Refresher its (tc', clock'))))"
    by (rule Cons.IH)
  with c have "list_all (\<lambda>t. clock \<le> t) (fetch_times (snd (Refresher its (tc', clock'))))"
    by (rule list_all_later)
  with Refresher_body_fetch_times [of clock it tc] show ?case
    by (simp add: s Let_def fetch_times_append del: Refresher_body.simps)
qed

lemma Refresher_append:
  "Refresher (its1 @ its2) s =
     (fst (Refresher its2 (fst (Refresher its1 s))),
      snd (Refresher its1 s) @ snd (Refresher its2 (fst (Refresher its1 s))))"
  by (induction its1 arbitrary: s) (simp_all add: Let_def del: Refresher_body.simps)

lemma Refresher_Cons:
  "Refresher (it # its) s =
     (fst (Refresher its (fst (Refresher_body it s))),
      snd (Refresher_body it s) @ snd (Refresher its (fst (Refresher_body it s))))"
  by (simp add: Let_def del: Refresher_body.simps)

lemma example_due:
  "\<not> Since (20 * Minute + int (waited short_fetch)) (LastRefresh stale_cache) < Minute * 15"
  "\<not> Since (20 * Minute + int (waited short_fetch) + int (fetch_took short_fetch) +
        int (waited full_fetch)) (LastRefresh stale_cache) < Minute * 15"
  "\<not> Since (20 * Minute + int (waited failing_fetch)) (LastRefresh stale_cache) < Minute * 15"
  "\<not> Since (20 * Minute + int (waited failing_fetch) + int (fetch_took failing_fetch) +
        Minute * 5 + int (overslept failing_fetch) + int (waited full_fetch))
      (LastRefresh stale_cache) < Minute * 15"
  by (simp_all add: Since_def Sub_def Minute_def short_fetch_def full_fetch_def
      failing_fetch_def stale_cache_def)

lemma example_replies:
  "snd (reply short_fetch) = None"
  "length (fst (reply short_fetch)) < length (Tweets stale_cache)"
  "snd (reply full_fetch) = None"
  "\<not> length (fst (reply full_fetch)) < length (Tweets stale_cache)"
  "snd (reply failing_fetch) = Some UserTimelineError"
  by (simp_all add: short_fetch_def full_fetch_def failing_fetch_def stale_cache_def)

lemma example_minutes:
  "Since (20 * Minute) 0 = 20 * Minute" "Since (101 * Minute) (100 * Minute) = Minute"
  "Since (25 * Minute + 1000) 0 = 25 * Minute + 1000"
  by (simp_all add: Since_def Sub_def Minute_def)

text \<open>
  Claim C4. The number of cached tweets never goes down: in every run of the loop the
  cache after a longer run holds at least as many tweets as after any shorter run that
  it extends, and so does the cache after one iteration, whatever the fetch returns.
  A fetch that succeeds with fewer tweets than are cached leaves the cache as it is,
  \<open>LastRefresh\<close> included.
\<close>

theorem Refresher_count_monotonic:
  "length (Tweets (fst (fst (Refresher its1 (tc0, clock0))))) \<le>
     length (Tweets (fst (fst (Refresher (its1 @ its2) (tc0, clock0))))) \<and>
   length (Tweets tc) \<le> length (Tweets (fst (fst (Refresher_body it (tc, clock))))) \<and>
   (snd (reply it) = None \<longrightarrow> length (fst (reply it)) < length (Tweets tc) \<longrightarrow>
      fst (fst (Refresher_body it (tc, clock))) = tc)"
proof -
  obtain tc1 clock1 where s: "fst (Refresher its1 (tc0, clock0)) = (tc1, clock1)"
    by (cases "fst (Refresher its1 (tc0, clock0))")
  have 1: "length (Tweets (fst (fst (Refresher its1 (tc0, clock0))))) \<le>
     length (Tweets (fst (fst (Refresher (its1 @ its2) (tc0, clock0)))))"
    using Refresher_length [of tc1 its2 clock1] by (simp add: Refresher_append s)
  have 3: "fst (fst (Refresher_body it (tc, clock))) = tc"
    if "snd (reply it) = None" "length (fst (reply it)) < length (Tweets tc)"
  proof (cases "Since (clock + int (waited it)) (LastRefresh tc) < Minute * 15")
    case True
    show ?thesis unfolding Refresher_body_not_due [OF True] by simp
  next
    case False
    show ?thesis unfolding Refresher_body_short [OF False that] by simp
  qed
  from 1 3 Refresher_body_length [of tc it clock] show ?thesis by blast
qed

text \<open>
  Claim C4 on the cache of two tweets, last refreshed at time 0, with the clock at 20
  minutes: a fetch that returns one tweet leaves the cache as it is, and after a second
  iteration whose fetch returns three tweets the cache holds three.
\<close>

theorem Refresher_count_monotonic_witness:
  "snd (reply short_fetch) = None \<and>
   length (fst (reply short_fetch)) < length (Tweets stale_cache) \<and>
   fst (fst (Refresher_body short_fetch (stale_cache, 20 * Minute))) = stale_cache \<and>
   length (Tweets (fst (fst (Refresher [short_fetch, full_fetch] (stale_cache, 20 * Minute))))) = 3"
proof -
  note b = Refresher_body_short [OF example_due(1) example_replies(1,2)]
  note b' = Refresher_body_commit [OF example_due(2) example_replies(3,4)]
  have "fst (fst (Refresher [short_fetch, full_fetch] (stale_cache, 20 * Minute))) =
          stale_cache\<lparr>Tweets := fst (reply full_fetch),
            LastRefresh := 20 * Minute + int (waited short_fetch) + int (fetch_took short_fetch) +
              int (waited full_fetch) + int (fetch_took full_fetch)\<rparr>"
    by (simp only: Refresher_Cons Refresher.simps b b' fst_conv)
  then have "length (Tweets (fst (fst (Refresher [short_fetch, full_fetch] (stale_cache, 20 * Minute))))) = 3"
    by (simp add: full_fetch_def)
  with example_replies(1,2)
    Refresher_count_monotonic [of "[]" stale_cache "20 * Minute" "[]" stale_cache short_fetch
      "20 * Minute"]
  show ?thesis by (simp del: Refresher_body.simps)
qed

text \<open>
  Claim C6. When a fetch is due and \<open>getTweets\<close> returns an error, the iteration leaves
  the cache as it is (the tweets and \<open>LastRefresh\<close>), its events are the fetch and a
  sleep of five minutes that starts when the fetch returns, and however the loop goes
  on, no later fetch starts before five minutes have passed since the failed fetch
  returned.
\<close>

theorem Refresher_fetch_error:
  assumes "\<not> Since (clock + int (waited it)) (LastRefresh tc) < Minute * 15"
    and "snd (reply it) = Some e"
  shows "fst (fst (Refresher_body it (tc, clock))) = tc \<and>
         snd (Refresher_body it (tc, clock)) =
           [Fetch (clock + int (waited it)),
            Sleep (clock + int (waited it) + int (fetch_took it)) (Minute * 5)] \<and>
         list_all (\<lambda>t. clock + int (waited it) + int (fetch_took it) + Minute * 5 \<le> t)
           (fetch_times (snd (Refresher its (fst (Refresher_body it (tc, clock))))))"
proof -
  let ?clock' = "clock + int (waited it) + int (fetch_took it) + Minute * 5 + int (overslept it)"
  have b: "Refresher_body it (tc, clock) =
           ((tc, ?clock'),
            [Fetch (clock + int (waited it)),
             Sleep (clock + int (waited it) + int (fetch_took it)) (Minute * 5)])"
    using assms by (rule Refresher_body_error)
  have "clock + int (waited it) + int (fetch_took it) + Minute * 5 \<le> ?clock'" by simp
  then have "list_all (\<lambda>t. clock + int (waited it) + int (fetch_took it) + Minute * 5 \<le> t)
           (fetch_times (snd (Refresher its (tc, ?clock'))))"
    using Refresher_fetch_times [of ?clock' its tc] by (rule list_all_later)
  then show ?thesis unfolding b by simp
qed

text \<open>
  Claim C6 on the cache of two tweets, last refreshed at time 0, with the clock at 20
  minutes: the fetch fails after 1000 nanoseconds, the cache is unchanged, and the fetch
  of the next iteration starts five minutes after that.
\<close>

theorem Refresher_fetch_error_witness:
  "\<not> Since (20 * Minute + int (waited failing_fetch)) (LastRefresh stale_cache) < Minute * 15 \<and>
   snd (reply failing_fetch) = Some UserTimelineError \<and>
   fst (fst (Refresher_body failing_fetch (stale_cache, 20 * Minute))) = stale_cache \<and>
   fetch_times (snd (Refresher [full_fetch]
       (fst (Refresher_body failing_fetch (stale_cache, 20 * Minute))))) =
     [20 * Minute + 1000 + Minute * 5]"
proof -
  note b = Refresher_body_error [OF example_due(3) example_replies(5)]
  note b' = Refresher_body_commit [OF example_due(4) example_replies(3,4)]
  have "fetch_times (snd (Refresher [full_fetch]
       (fst (Refresher_body failing_fetch (stale_cache, 20 * Minute))))) =
     [20 * Minute + int (waited failing_fetch) + int (fetch_took failing_fetch) +
        Minute * 5 + int (overslept failing_fetch) + int (waited full_fetch)]"
    by (simp only: Refresher_Cons Refresher.simps b b' fst_conv snd_conv append_Nil2
        fetch_times.simps)
  then have "fetch_times (snd (Refresher [full_fetch]
       (fst (Refresher_body failing_fetch (stale_cache, 20 * Minute))))) =
     [20 * Minute + 1000 + Minute * 5]"
    by (simp add: failing_fetch_def full_fetch_def del: Refresher_body.simps)
  with example_due(3) example_replies(5)
    Refresher_fetch_error [OF example_due(3) example_replies(5), of "[full_fetch]"]
  show ?thesis by (simp del: Refresher_body.simps)
qed

text \<open>
  Claim C8, as stated, fails: with the cache refreshed at minute 100 and the clock at
  minute 101, less than 15 minutes have passed, and the iteration makes no call of
  \<open>time.Sleep\<close>; the loop goes on to its next iteration at once.
\<close>

theorem Refresher_not_due_counterexample:
  "Since (101 * Minute + int (waited full_fetch)) (LastRefresh fresh_cache) < Minute * 15 \<and>
   \<not> sleeps (snd (Refresher_body full_fetch (fresh_cache, 101 * Minute)))"
  by (simp add: full_fetch_def fresh_cache_def example_minutes) (simp add: Minute_def)

text \<open>
  Claim C8, amended. On every iteration of the refresh loop where less than 15 minutes
  have passed since \<open>LastRefresh\<close>, no fetch is attempted and the cache is unchanged; the
  iteration does not sleep: it ends at once, and the loop reads the clock again in its
  next iteration (a busy wait).
\<close>

theorem Refresher_not_due:
  assumes "Since (clock + int (waited it)) (LastRefresh tc) < Minute * 15"
  shows "Refresher_body it (tc, clock) = ((tc, clock + int (waited it)), []) \<and>
         fetch_times (snd (Refresher_body it (tc, clock))) = [] \<and>
         \<not> sleeps (snd (Refresher_body it (tc, clock)))"
  using assms by simp

text \<open>
  Claim C8, amended, with the cache refreshed at minute 100 and the clock at minute 101:
  the iteration changes nothing and has no event.
\<close>

theorem Refresher_not_due_witness:
  "Since (101 * Minute + int (waited short_fetch)) (LastRefresh fresh_cache) < Minute * 15 \<and>
   Refresher_body short_fetch (fresh_cache, 101 * Minute) = ((fresh_cache, 101 * Minute), [])"
proof -
  have d: "Since (101 * Minute + int (waited short_fetch)) (LastRefresh fresh_cache) < Minute * 15"
    by (simp add: short_fetch_def fresh_cache_def example_minutes) (simp add: Minute_def)
  from d Refresher_not_due [OF d] show ?thesis
    by (simp add: short_fetch_def del: Refresher_body.simps)
qed

end
